theory Spec2Isabelle
  imports Complex_Main
begin

section \<open>Fitness tracker: homework.py and oop\_refactor.py\<close>

text \<open>
  The repository holds two versions of one program. Both define the message record
  \<open>InfoMessage\<close>, the base class \<open>Training\<close> with its subclasses \<open>Running\<close>,
  \<open>SportsWalking\<close> and \<open>Swimming\<close>, and the functions \<open>read_package\<close> and \<open>main\<close>.
  Definitions taken from homework.py carry the prefix \<open>hw_\<close>, those from
  oop\_refactor.py the prefix \<open>rf_\<close>; what is literally the same in both files
  (the fields of the classes, the dictionary of workout codes) is defined once.

  Numbers. Python's \<open>int\<close> and \<open>float\<close> values are modelled by \<open>real\<close>: the
  arithmetic is exact, the rounding of IEEE-754 doubles and the values \<open>inf\<close> and
  \<open>nan\<close> are not part of the model. Every formula keeps the order of operations of
  the source. A division by zero raises \<open>ZeroDivisionError\<close>, as \<open>/\<close> does in Python.

  Strings. A Python \<open>str\<close> is a sequence of Unicode code points and is modelled as a
  list of code points (\<open>nat list\<close>); \<open>ascii\<close> embeds an ASCII literal.
\<close>

subsection \<open>Strings and errors\<close>

type_synonym pystr = "nat list"

definition ascii :: "string \<Rightarrow> pystr" where
  "ascii s = map of_char s"

datatype py_error = TypeError | ZeroDivisionError | AttributeError | NotImplementedError pystr

text \<open>Python's true division \<open>a / b\<close>.\<close>

definition truediv :: "real \<Rightarrow> real \<Rightarrow> py_error + real" where
  "truediv a b = (if b = 0 then Inl ZeroDivisionError else Inr (a / b))"

subsection \<open>Formatting a number with \<open>{:.3f}\<close>\<close>

text \<open>
  Python renders the exact value of the number, rounded to three decimals with ties
  going to the even neighbour; a negative number keeps its sign even when it rounds
  to zero (\<open>'{:.3f}'.format(-0.0001) = '-0.000'\<close>).
\<close>

definition round_half_even :: "real \<Rightarrow> int" where
  "round_half_even x =
     (let f = \<lfloor>x\<rfloor>; r = x - of_int f
      in if r < 1 / 2 then f
         else if 1 / 2 < r then f + 1
         else if even f then f else f + 1)"

definition digit :: "nat \<Rightarrow> nat" where
  "digit d = 48 + d"

fun str_nat :: "nat \<Rightarrow> pystr" where
  "str_nat n = (if n < 10 then [digit n] else str_nat (n div 10) @ [digit (n mod 10)])"

declare str_nat.simps [simp del]

definition frac3 :: "nat \<Rightarrow> pystr" where
  "frac3 m = [digit (m div 100 mod 10), digit (m div 10 mod 10), digit (m mod 10)]"

definition format_3f :: "real \<Rightarrow> pystr" where
  "format_3f x =
     (let m = nat (round_half_even (\<bar>x\<bar> * 1000))
      in (if x < 0 then [45] else []) @ str_nat (m div 1000) @ [46] @ frac3 m)"



subsection \<open>InfoMessage\<close>

record InfoMessage =
  training_type :: pystr
  duration :: real
  distance :: real
  speed :: real
  calories :: real

text \<open>
  The pieces of the template. In code points:
  \<open>TEXT_type\<close> is "Tip trenirovki: ", \<open>TEXT_duration\<close> is "; Dlitel'nost': ",
  \<open>TEXT_distance\<close> is " ch.; Distantsiya: ", \<open>TEXT_speed\<close> is " km; Sr. skorost': ",
  \<open>TEXT_calories\<close> is " km/ch; Potracheno kkal: " (all in Cyrillic letters), and
  \<open>TEXT_end\<close> is the final full stop.
\<close>

definition TEXT_type :: pystr where
  "TEXT_type = [1058, 1080, 1087, 32, 1090, 1088, 1077, 1085, 1080, 1088, 1086, 1074,
     1082, 1080, 58, 32]"

definition TEXT_duration :: pystr where
  "TEXT_duration = [59, 32, 1044, 1083, 1080, 1090, 1077, 1083, 1100, 1085, 1086, 1089,
     1090, 1100, 58, 32]"

definition TEXT_distance :: pystr where
  "TEXT_distance = [32, 1095, 46, 59, 32, 1044, 1080, 1089, 1090, 1072, 1085, 1094, 1080,
     1103, 58, 32]"

definition TEXT_speed :: pystr where
  "TEXT_speed = [32, 1082, 1084, 59, 32, 1057, 1088, 46, 32, 1089, 1082, 1086, 1088, 1086,
     1089, 1090, 1100, 58, 32]"

definition TEXT_calories :: pystr where
  "TEXT_calories = [32, 1082, 1084, 47, 1095, 59, 32, 1055, 1086, 1090, 1088, 1072, 1095,
     1077, 1085, 1086, 32, 1082, 1082, 1072, 1083, 58, 32]"

definition TEXT_end :: pystr where
  "TEXT_end = [46]"

text \<open>
  homework.py: \<open>TEXT.format(*asdict(self).values())\<close>. The dataclass fields, in
  declaration order, fill the five replacement fields of \<open>TEXT\<close>: \<open>{}\<close> takes the
  type name, each \<open>{:.3f}\<close> one number.
\<close>

definition hw_get_message :: "InfoMessage \<Rightarrow> pystr" where
  "hw_get_message m =
     (case [duration m, distance m, speed m, calories m] of
        [a, b, c, d] \<Rightarrow>
          TEXT_type @ training_type m
          @ TEXT_duration @ format_3f a
          @ TEXT_distance @ format_3f b
          @ TEXT_speed @ format_3f c
          @ TEXT_calories @ format_3f d
          @ TEXT_end)"

text \<open>oop\_refactor.py: \<open>__str__\<close>, an f-string over the named fields.\<close>

definition rf_str :: "InfoMessage \<Rightarrow> pystr" where
  "rf_str m =
     TEXT_type @ training_type m
     @ TEXT_duration @ format_3f (duration m)
     @ TEXT_distance @ format_3f (distance m)
     @ TEXT_speed @ format_3f (speed m)
     @ TEXT_calories @ format_3f (calories m)
     @ TEXT_end"

subsection \<open>Training and its subclasses\<close>

text \<open>
  One constructor per class, holding the instance attributes in the order of the
  parameters of \<open>__init__\<close>: action, duration, weight, then height for
  \<open>SportsWalking\<close>, length\_pool and count\_pool for \<open>Swimming\<close>.
\<close>

datatype training =
    Training real real real
  | Running real real real
  | SportsWalking real real real real
  | Swimming real real real real real

fun type_name :: "training \<Rightarrow> pystr" where
  "type_name (Training _ _ _) = ascii ''Training''"
| "type_name (Running _ _ _) = ascii ''Running''"
| "type_name (SportsWalking _ _ _ _) = ascii ''SportsWalking''"
| "type_name (Swimming _ _ _ _ _) = ascii ''Swimming''"

fun action_of :: "training \<Rightarrow> real" where
  "action_of (Training a _ _) = a"
| "action_of (Running a _ _) = a"
| "action_of (SportsWalking a _ _ _) = a"
| "action_of (Swimming a _ _ _ _) = a"

fun duration_of :: "training \<Rightarrow> real" where
  "duration_of (Training _ d _) = d"
| "duration_of (Running _ d _) = d"
| "duration_of (SportsWalking _ d _ _) = d"
| "duration_of (Swimming _ d _ _ _) = d"

fun weight_of :: "training \<Rightarrow> real" where
  "weight_of (Training _ _ w) = w"
| "weight_of (Running _ _ w) = w"
| "weight_of (SportsWalking _ _ w _) = w"
| "weight_of (Swimming _ _ w _ _) = w"

definition M_IN_KM :: real where "M_IN_KM = 1000"
definition H_IN_MIN :: real where "H_IN_MIN = 60"
definition CALORIES_MEAN_SPEED_MULTIPLIER :: real where "CALORIES_MEAN_SPEED_MULTIPLIER = 18"
definition CALORIES_MEAN_SPEED_SHIFT :: real where "CALORIES_MEAN_SPEED_SHIFT = 179 / 100"
definition KM_H_IN_M_S :: real where "KM_H_IN_M_S = 278 / 1000"
definition CM_IN_M :: real where "CM_IN_M = 100"

paragraph \<open>homework.py\<close>

text \<open>The class attribute \<open>LEN_STEP\<close>: 0.65, overridden to 1.38 in \<open>Swimming\<close>.\<close>

fun hw_LEN_STEP :: "training \<Rightarrow> real" where
  "hw_LEN_STEP (Swimming _ _ _ _ _) = 138 / 100"
| "hw_LEN_STEP _ = 65 / 100"

definition hw_get_distance :: "training \<Rightarrow> real" where
  "hw_get_distance t = action_of t * hw_LEN_STEP t / M_IN_KM"

fun hw_get_mean_speed :: "training \<Rightarrow> py_error + real" where
  "hw_get_mean_speed (Swimming a d w length_pool count_pool) =
     truediv (length_pool * count_pool / M_IN_KM) d"
| "hw_get_mean_speed t = truediv (hw_get_distance t) (duration_of t)"

definition hw_COEF_1 :: real where "hw_COEF_1 = 35 / 1000"
definition hw_COEF_2 :: real where "hw_COEF_2 = 29 / 1000"
definition hw_NUMBER_1 :: real where "hw_NUMBER_1 = 11 / 10"
definition hw_NUMBER_2 :: real where "hw_NUMBER_2 = 2"

fun hw_get_spent_calories :: "training \<Rightarrow> py_error + real" where
  "hw_get_spent_calories (Training a d w) =
     Inl (NotImplementedError (type_name (Training a d w)))"
| "hw_get_spent_calories (Running a d w) =
     (case hw_get_mean_speed (Running a d w) of
        Inl e \<Rightarrow> Inl e
      | Inr v \<Rightarrow>
          Inr ((CALORIES_MEAN_SPEED_MULTIPLIER * v + CALORIES_MEAN_SPEED_SHIFT)
               * w / M_IN_KM * (d * H_IN_MIN)))"
| "hw_get_spent_calories (SportsWalking a d w height) =
     (case hw_get_mean_speed (SportsWalking a d w height) of
        Inl e \<Rightarrow> Inl e
      | Inr v \<Rightarrow>
          (case truediv ((v * KM_H_IN_M_S)\<^sup>2) (height / CM_IN_M) of
             Inl e \<Rightarrow> Inl e
           | Inr q \<Rightarrow>
               Inr ((hw_COEF_1 * w + q * hw_COEF_2 * w) * (d * H_IN_MIN))))"
| "hw_get_spent_calories (Swimming a d w length_pool count_pool) =
     (case hw_get_mean_speed (Swimming a d w length_pool count_pool) of
        Inl e \<Rightarrow> Inl e
      | Inr v \<Rightarrow> Inr ((v + hw_NUMBER_1) * hw_NUMBER_2 * w * d))"

text \<open>
  \<open>show_training_info\<close> evaluates the arguments of \<open>InfoMessage\<close> from left to
  right; the first one that raises ends the call.
\<close>

definition hw_show_training_info :: "training \<Rightarrow> py_error + InfoMessage" where
  "hw_show_training_info t =
     (case hw_get_mean_speed t of
        Inl e \<Rightarrow> Inl e
      | Inr v \<Rightarrow>
          (case hw_get_spent_calories t of
             Inl e \<Rightarrow> Inl e
           | Inr c \<Rightarrow>
               Inr \<lparr>training_type = type_name t, duration = duration_of t,
                    distance = hw_get_distance t, speed = v, calories = c\<rparr>))"

paragraph \<open>oop\_refactor.py\<close>

fun rf_len_step :: "training \<Rightarrow> real" where
  "rf_len_step (Swimming _ _ _ _ _) = 138 / 100"
| "rf_len_step _ = 65 / 100"

definition rf_get_distance :: "training \<Rightarrow> real" where
  "rf_get_distance t = action_of t * rf_len_step t / M_IN_KM"

fun rf_get_mean_speed :: "training \<Rightarrow> py_error + real" where
  "rf_get_mean_speed (Swimming a d w length_pool count_pool) =
     truediv (length_pool * count_pool / M_IN_KM) d"
| "rf_get_mean_speed t = truediv (rf_get_distance t) (duration_of t)"

text \<open>
  \<open>COEF_1\<close> and \<open>COEF_2\<close> are class attributes of \<open>SportsWalking\<close> (0.035, 0.029)
  and, with other values, of \<open>Swimming\<close> (1.1, 2).
\<close>

definition rf_walk_COEF_1 :: real where "rf_walk_COEF_1 = 35 / 1000"
definition rf_walk_COEF_2 :: real where "rf_walk_COEF_2 = 29 / 1000"
definition rf_swim_COEF_1 :: real where "rf_swim_COEF_1 = 11 / 10"
definition rf_swim_COEF_2 :: real where "rf_swim_COEF_2 = 2"

fun rf_get_spent_calories :: "training \<Rightarrow> py_error + real" where
  "rf_get_spent_calories (Training a d w) =
     Inl (NotImplementedError (type_name (Training a d w)))"
| "rf_get_spent_calories (Running a d w) =
     (case rf_get_mean_speed (Running a d w) of
        Inl e \<Rightarrow> Inl e
      | Inr v \<Rightarrow>
          Inr ((CALORIES_MEAN_SPEED_MULTIPLIER * v + CALORIES_MEAN_SPEED_SHIFT)
               * w / M_IN_KM * (d * H_IN_MIN)))"
| "rf_get_spent_calories (SportsWalking a d w height) =
     (case rf_get_mean_speed (SportsWalking a d w height) of
        Inl e \<Rightarrow> Inl e
      | Inr v \<Rightarrow>
          (case truediv ((v * KM_H_IN_M_S)\<^sup>2) (height / CM_IN_M) of
             Inl e \<Rightarrow> Inl e
           | Inr q \<Rightarrow>
               Inr ((rf_walk_COEF_1 * w + q * rf_walk_COEF_2 * w) * (d * H_IN_MIN))))"
| "rf_get_spent_calories (Swimming a d w length_pool count_pool) =
     (case rf_get_mean_speed (Swimming a d w length_pool count_pool) of
        Inl e \<Rightarrow> Inl e
      | Inr v \<Rightarrow> Inr ((v + rf_swim_COEF_1) * rf_swim_COEF_2 * w * d))"

definition rf_show_training_info :: "training \<Rightarrow> py_error + InfoMessage" where
  "rf_show_training_info t =
     (case rf_get_mean_speed t of
        Inl e \<Rightarrow> Inl e
      | Inr v \<Rightarrow>
          (case rf_get_spent_calories t of
             Inl e \<Rightarrow> Inl e
           | Inr c \<Rightarrow>
               Inr \<lparr>training_type = type_name t, duration = duration_of t,
                    distance = rf_get_distance t, speed = v, calories = c\<rparr>))"

subsection \<open>read\_package and main\<close>

text \<open>
  The dictionary \<open>workout_code\<close> maps a code to a class; calling the class with
  \<open>*data\<close> binds the list to the parameters of \<open>__init__\<close> by position and raises
  \<open>TypeError\<close> when their number differs.
\<close>

datatype training_class = Swimming_class | Running_class | SportsWalking_class

definition workout_code :: "pystr \<rightharpoonup> training_class" where
  "workout_code =
     [ascii ''SWM'' \<mapsto> Swimming_class,
      ascii ''RUN'' \<mapsto> Running_class,
      ascii ''WLK'' \<mapsto> SportsWalking_class]"

fun construct :: "training_class \<Rightarrow> real list \<Rightarrow> py_error + training" where
  "construct Running_class [a, d, w] = Inr (Running a d w)"
| "construct SportsWalking_class [a, d, w, h] = Inr (SportsWalking a d w h)"
| "construct Swimming_class [a, d, w, l, c] = Inr (Swimming a d w l c)"
| "construct _ _ = Inl TypeError"

text \<open>
  The warning, in Cyrillic letters: "Dannyi tip trenirovki neizvesten. Poprobuite
  pokhodit', poplavat' ili beg."
\<close>

definition UNKNOWN_TYPE :: pystr where
  "UNKNOWN_TYPE = [1044, 1072, 1085, 1085, 1099, 1081, 32, 1090, 1080, 1087, 32, 1090,
     1088, 1077, 1085, 1080, 1088, 1086, 1074, 1082, 1080, 32, 1085, 1077, 1080, 1079,
     1074, 1077, 1089, 1090, 1077, 1085, 46, 32, 1055, 1086, 1087, 1088, 1086, 1073, 1091,
     1081, 1090, 1077, 32, 1087, 1086, 1093, 1086, 1076, 1080, 1090, 1100, 44, 32, 1087,
     1086, 1087, 1083, 1072, 1074, 1072, 1090, 1100, 32, 1080, 1083, 1080, 32, 1073, 1077,
     1075, 46]"

text \<open>
  A call that prints is modelled by the pair of the lines it wrote to standard
  output, in order, and its outcome: \<open>Inl\<close> the exception that ended it, \<open>Inr\<close>
  the value it returned.
\<close>

type_synonym 'a printing = "pystr list \<times> (py_error + 'a)"

paragraph \<open>homework.py\<close>

text \<open>
  \<open>read_package\<close> returns the new object for a known code; for an unknown code it
  prints the warning and falls off its end, which returns \<open>None\<close>.
\<close>

definition hw_read_package :: "pystr \<Rightarrow> real list \<Rightarrow> training option printing" where
  "hw_read_package workout_type data =
     (case workout_code workout_type of
        Some cls \<Rightarrow>
          (case construct cls data of
             Inl e \<Rightarrow> ([], Inl e)
           | Inr t \<Rightarrow> ([], Inr (Some t)))
      | None \<Rightarrow> ([UNKNOWN_TYPE], Inr None))"

text \<open>
  \<open>main\<close> calls \<open>training.show_training_info()\<close>; on \<open>None\<close> the attribute lookup
  raises \<open>AttributeError\<close>.
\<close>

definition hw_main :: "training option \<Rightarrow> unit printing" where
  "hw_main training =
     (case training of
        None \<Rightarrow> ([], Inl AttributeError)
      | Some t \<Rightarrow>
          (case hw_show_training_info t of
             Inl e \<Rightarrow> ([], Inl e)
           | Inr info \<Rightarrow> ([hw_get_message info], Inr ())))"

text \<open>
  The loop of the \<open>__main__\<close> block, \<open>for workout_type, data in packages:
  training = read_package(workout_type, data); main(training)\<close>, with the list of
  packages as its parameter.
\<close>

fun hw_run :: "(pystr \<times> real list) list \<Rightarrow> unit printing" where
  "hw_run [] = ([], Inr ())"
| "hw_run ((workout_type, data) # packages) =
     (case hw_read_package workout_type data of
        (out1, Inl e) \<Rightarrow> (out1, Inl e)
      | (out1, Inr training) \<Rightarrow>
          (case hw_main training of
             (out2, Inl e) \<Rightarrow> (out1 @ out2, Inl e)
           | (out2, Inr u) \<Rightarrow>
               (case hw_run packages of
                  (out3, r) \<Rightarrow> (out1 @ out2 @ out3, r))))"

paragraph \<open>oop\_refactor.py\<close>

text \<open>\<open>read_package\<close> builds the object, prints its message and returns \<open>None\<close>.\<close>

definition rf_read_package :: "pystr \<Rightarrow> real list \<Rightarrow> unit printing" where
  "rf_read_package workout_type data =
     (case workout_code workout_type of
        Some cls \<Rightarrow>
          (case construct cls data of
             Inl e \<Rightarrow> ([], Inl e)
           | Inr t \<Rightarrow>
               (case rf_show_training_info t of
                  Inl e \<Rightarrow> ([], Inl e)
                | Inr info \<Rightarrow> ([rf_str info], Inr ())))
      | None \<Rightarrow> ([UNKNOWN_TYPE], Inr ()))"

text \<open>
  \<open>main\<close> returns \<open>[read_package(*package) for package in packages]\<close>, the list
  of the values returned, each of them \<open>None\<close>.
\<close>

fun rf_main :: "(pystr \<times> real list) list \<Rightarrow> unit list printing" where
  "rf_main [] = ([], Inr [])"
| "rf_main ((workout_type, data) # packages) =
     (case rf_read_package workout_type data of
        (out1, Inl e) \<Rightarrow> (out1, Inl e)
      | (out1, Inr u) \<Rightarrow>
          (case rf_main packages of
             (out2, Inl e) \<Rightarrow> (out1 @ out2, Inl e)
           | (out2, Inr us) \<Rightarrow> (out1 @ out2, Inr (u # us))))"

section \<open>Properties\<close>

subsection \<open>Evaluation lemmas\<close>

lemmas consts_defs = M_IN_KM_def H_IN_MIN_def CALORIES_MEAN_SPEED_MULTIPLIER_def
  CALORIES_MEAN_SPEED_SHIFT_def KM_H_IN_M_S_def CM_IN_M_def hw_COEF_1_def hw_COEF_2_def
  hw_NUMBER_1_def hw_NUMBER_2_def rf_walk_COEF_1_def rf_walk_COEF_2_def rf_swim_COEF_1_def
  rf_swim_COEF_2_def

lemma str_nat_small: "n < 10 \<Longrightarrow> str_nat n = [digit n]"
  by (simp add: str_nat.simps)

lemma str_nat_big: "10 \<le> n \<Longrightarrow> str_nat n = str_nat (n div 10) @ [digit (n mod 10)]"
  by (subst str_nat.simps) simp

lemmas format_eval = format_3f_def round_half_even_def frac3_def digit_def ascii_def Let_def
  str_nat_small str_nat_big

lemma truediv_nonzero: "b \<noteq> 0 \<Longrightarrow> truediv a b = Inr (a / b)"
  by (simp add: truediv_def)


subsection \<open>Distance\<close>

text \<open>
  C6. For every calculator, \<open>get_distance\<close> returns action * step length / 1000,
  where the step length is 0.65 for Running and SportsWalking and 1.38 for Swimming;
  this holds in both files and for all three variants, Swimming included.
\<close>

theorem get_distance_formula:
  "hw_get_distance (Running a d w) = a * 0.65 / 1000
   \<and> hw_get_distance (SportsWalking a d w h) = a * 0.65 / 1000
   \<and> hw_get_distance (Swimming a d w l c) = a * 1.38 / 1000
   \<and> rf_get_distance (Running a d w) = a * 0.65 / 1000
   \<and> rf_get_distance (SportsWalking a d w h) = a * 0.65 / 1000
   \<and> rf_get_distance (Swimming a d w l c) = a * 1.38 / 1000"
  by (simp add: hw_get_distance_def rf_get_distance_def M_IN_KM_def)

subsection \<open>Running\<close>

text \<open>
  C2, with 797.805 in place of 798.0. For every Running calculator with action \<ge> 0, duration > 0 and
  weight > 0, \<open>get_spent_calories\<close> returns
  (18 * meanSpeed + 1.79) * weight / 1000 * (duration * 60) with
  meanSpeed = (action * 0.65 / 1000) / duration, in both files. For
  (action = 15000, duration = 1, weight = 75) the distance is 9.75 km, the mean speed
  9.75 km/h and the calories are 797.805, rendered as 797.805.
\<close>

theorem running_calories:
  assumes "0 \<le> a" and "0 < d" and "0 < w"
  shows "hw_get_mean_speed (Running a d w) = Inr ((a * 0.65 / 1000) / d)
    \<and> rf_get_mean_speed (Running a d w) = Inr ((a * 0.65 / 1000) / d)
    \<and> hw_get_spent_calories (Running a d w)
        = Inr ((18 * ((a * 0.65 / 1000) / d) + 1.79) * w / 1000 * (d * 60))
    \<and> rf_get_spent_calories (Running a d w)
        = Inr ((18 * ((a * 0.65 / 1000) / d) + 1.79) * w / 1000 * (d * 60))
    \<and> hw_get_distance (Running 15000 1 75) = 9.75
    \<and> rf_get_distance (Running 15000 1 75) = 9.75
    \<and> hw_get_mean_speed (Running 15000 1 75) = Inr 9.75
    \<and> rf_get_mean_speed (Running 15000 1 75) = Inr 9.75
    \<and> hw_get_spent_calories (Running 15000 1 75) = Inr 797.805
    \<and> rf_get_spent_calories (Running 15000 1 75) = Inr 797.805
    \<and> format_3f 797.805 = ascii ''797.805''"
proof -
  from assms have d: "d \<noteq> 0" by simp
  have gen: "hw_get_mean_speed (Running a d w) = Inr ((a * 0.65 / 1000) / d)"
    "rf_get_mean_speed (Running a d w) = Inr ((a * 0.65 / 1000) / d)"
    using d by (simp_all add: truediv_def hw_get_distance_def rf_get_distance_def M_IN_KM_def)
  have cal: "hw_get_spent_calories (Running a d w)
        = Inr ((18 * ((a * 0.65 / 1000) / d) + 1.79) * w / 1000 * (d * 60))"
    "rf_get_spent_calories (Running a d w)
        = Inr ((18 * ((a * 0.65 / 1000) / d) + 1.79) * w / 1000 * (d * 60))"
    using d by (simp_all add: truediv_def hw_get_distance_def rf_get_distance_def consts_defs)
  have ex: "hw_get_distance (Running 15000 1 75) = 9.75"
    "rf_get_distance (Running 15000 1 75) = 9.75"
    "hw_get_mean_speed (Running 15000 1 75) = Inr 9.75"
    "rf_get_mean_speed (Running 15000 1 75) = Inr 9.75"
    "hw_get_spent_calories (Running 15000 1 75) = Inr 797.805"
    "rf_get_spent_calories (Running 15000 1 75) = Inr 797.805"
    by (simp_all add: truediv_def hw_get_distance_def rf_get_distance_def consts_defs)
  have fmt: "format_3f 797.805 = ascii ''797.805''"
    by (simp add: format_eval)
  from gen cal ex fmt show ?thesis by (intro conjI)
qed

text \<open>The hypotheses hold at (15000, 1, 75).\<close>

theorem running_calories_witness:
  "(0::real) \<le> 15000 \<and> (0::real) < 1 \<and> (0::real) < 75
   \<and> hw_get_spent_calories (Running 15000 1 75)
       = Inr ((18 * ((15000 * 0.65 / 1000) / 1) + 1.79) * 75 / 1000 * (1 * 60))"
proof -
  have h: "(0::real) \<le> 15000" "(0::real) < 1" "(0::real) < 75" by simp_all
  from running_calories [OF h] h show ?thesis by blast
qed

text \<open>
  C2 as stated gives 798.0 for the calories of (15000, 1, 75). Both files return
  797.805, which differs from 798 by more than half a thousandth and is rendered as
  797.805, not 798.000.
\<close>

theorem running_calories_not_798:
  "hw_get_spent_calories (Running 15000 1 75) = Inr (797805 / 1000)
   \<and> rf_get_spent_calories (Running 15000 1 75) = Inr (797805 / 1000)
   \<and> \<not> \<bar>797805 / 1000 - 798\<bar> < (5 / 10000 :: real)
   \<and> format_3f (797805 / 1000) = ascii ''797.805''
   \<and> format_3f (797805 / 1000) \<noteq> ascii ''798.000''"
  by (simp add: truediv_def hw_get_distance_def rf_get_distance_def consts_defs format_eval)

subsection \<open>Swimming\<close>

text \<open>
  C3. For every Swimming calculator with duration > 0, \<open>get_mean_speed\<close> returns
  (length\_pool * count\_pool / 1000) / duration, in both files. For
  (action = 720, duration = 1, weight = 80, length\_pool = 25, count\_pool = 40) it is
  1.0 km/h, while the default of the base class, \<open>get_distance() / duration\<close>,
  would be 0.9936.
\<close>

theorem swimming_mean_speed:
  assumes "0 < d"
  shows "hw_get_mean_speed (Swimming a d w l c) = Inr ((l * c / 1000) / d)
    \<and> rf_get_mean_speed (Swimming a d w l c) = Inr ((l * c / 1000) / d)
    \<and> hw_get_mean_speed (Swimming 720 1 80 25 40) = Inr 1
    \<and> rf_get_mean_speed (Swimming 720 1 80 25 40) = Inr 1
    \<and> truediv (hw_get_distance (Swimming 720 1 80 25 40)) 1 = Inr 0.9936
    \<and> truediv (rf_get_distance (Swimming 720 1 80 25 40)) 1 = Inr 0.9936"
proof -
  from assms have d: "d \<noteq> 0" by simp
  have gen: "hw_get_mean_speed (Swimming a d w l c) = Inr ((l * c / 1000) / d)"
    "rf_get_mean_speed (Swimming a d w l c) = Inr ((l * c / 1000) / d)"
    using d by (simp_all add: truediv_def M_IN_KM_def)
  have ex: "hw_get_mean_speed (Swimming 720 1 80 25 40) = Inr 1"
    "rf_get_mean_speed (Swimming 720 1 80 25 40) = Inr 1"
    "truediv (hw_get_distance (Swimming 720 1 80 25 40)) 1 = Inr 0.9936"
    "truediv (rf_get_distance (Swimming 720 1 80 25 40)) 1 = Inr 0.9936"
    by (simp_all add: truediv_def hw_get_distance_def rf_get_distance_def M_IN_KM_def)
  from gen ex show ?thesis by (intro conjI)
qed

text \<open>The hypothesis holds at the sample package.\<close>

theorem swimming_mean_speed_witness:
  "(0::real) < 1 \<and> hw_get_mean_speed (Swimming 720 1 80 25 40) = Inr ((25 * 40 / 1000) / 1)"
proof -
  have h: "(0::real) < 1" by simp
  from swimming_mean_speed [OF h, where a = 720 and w = 80 and l = 25 and c = 40] h show ?thesis by blast
qed

text \<open>
  C4. For every Swimming calculator with duration > 0, \<open>get_spent_calories\<close>
  returns (meanSpeed + 1.1) * 2 * weight * duration with the pool-based mean speed
  (length\_pool * count\_pool / 1000) / duration, in both files; for
  (720, 1, 80, 25, 40) the calories are 336.
\<close>

theorem swimming_calories:
  assumes "0 < d"
  shows "hw_get_spent_calories (Swimming a d w l c)
        = Inr (((l * c / 1000) / d + 1.1) * 2 * w * d)
    \<and> rf_get_spent_calories (Swimming a d w l c)
        = Inr (((l * c / 1000) / d + 1.1) * 2 * w * d)
    \<and> hw_get_spent_calories (Swimming 720 1 80 25 40) = Inr 336
    \<and> rf_get_spent_calories (Swimming 720 1 80 25 40) = Inr 336
    \<and> format_3f 336 = ascii ''336.000''"
proof -
  from assms have d: "d \<noteq> 0" by simp
  have gen: "hw_get_spent_calories (Swimming a d w l c)
        = Inr (((l * c / 1000) / d + 1.1) * 2 * w * d)"
    "rf_get_spent_calories (Swimming a d w l c)
        = Inr (((l * c / 1000) / d + 1.1) * 2 * w * d)"
    using d by (simp_all add: truediv_def consts_defs)
  have ex: "hw_get_spent_calories (Swimming 720 1 80 25 40) = Inr 336"
    "rf_get_spent_calories (Swimming 720 1 80 25 40) = Inr 336"
    by (simp_all add: truediv_def consts_defs)
  have fmt: "format_3f 336 = ascii ''336.000''"
    by (simp add: format_eval)
  from gen ex fmt show ?thesis by (intro conjI)
qed

text \<open>The hypothesis holds at the sample package.\<close>

theorem swimming_calories_witness:
  "(0::real) < 1
   \<and> hw_get_spent_calories (Swimming 720 1 80 25 40)
       = Inr (((25 * 40 / 1000) / 1 + 1.1) * 2 * 80 * 1)"
proof -
  have h: "(0::real) < 1" by simp
  from swimming_calories [OF h, where a = 720 and w = 80 and l = 25 and c = 40] h show ?thesis by blast
qed

subsection \<open>SportsWalking\<close>

text \<open>
  C5. For every SportsWalking calculator with duration > 0 and height \<noteq> 0,
  \<open>get_spent_calories\<close> returns
  (0.035 * weight + ((meanSpeed * 0.278)^2 / (height / 100)) * 0.029 * weight)
  * (duration * 60) with meanSpeed = (action * 0.65 / 1000) / duration, in both
  files. For (action = 9000, duration = 1, weight = 75, height = 180) the distance and
  the mean speed are 5.85 and the formula gives 349.251747525, rendered as 349.252.
\<close>

theorem walking_calories:
  assumes "0 < d" and "h \<noteq> 0"
  shows "hw_get_mean_speed (SportsWalking a d w h) = Inr ((a * 0.65 / 1000) / d)
    \<and> rf_get_mean_speed (SportsWalking a d w h) = Inr ((a * 0.65 / 1000) / d)
    \<and> hw_get_spent_calories (SportsWalking a d w h)
        = Inr ((0.035 * w + (((a * 0.65 / 1000) / d * 0.278)\<^sup>2 / (h / 100)) * 0.029 * w)
               * (d * 60))
    \<and> rf_get_spent_calories (SportsWalking a d w h)
        = Inr ((0.035 * w + (((a * 0.65 / 1000) / d * 0.278)\<^sup>2 / (h / 100)) * 0.029 * w)
               * (d * 60))
    \<and> hw_get_distance (SportsWalking 9000 1 75 180) = 5.85
    \<and> rf_get_distance (SportsWalking 9000 1 75 180) = 5.85
    \<and> hw_get_mean_speed (SportsWalking 9000 1 75 180) = Inr 5.85
    \<and> rf_get_mean_speed (SportsWalking 9000 1 75 180) = Inr 5.85
    \<and> hw_get_spent_calories (SportsWalking 9000 1 75 180) = Inr 349.251747525
    \<and> rf_get_spent_calories (SportsWalking 9000 1 75 180) = Inr 349.251747525
    \<and> format_3f 349.251747525 = ascii ''349.252''"
proof -
  from assms have d: "d \<noteq> 0" by simp
  have gen: "hw_get_mean_speed (SportsWalking a d w h) = Inr ((a * 0.65 / 1000) / d)"
    "rf_get_mean_speed (SportsWalking a d w h) = Inr ((a * 0.65 / 1000) / d)"
    using d by (simp_all add: truediv_def hw_get_distance_def rf_get_distance_def M_IN_KM_def)
  have cal: "hw_get_spent_calories (SportsWalking a d w h)
        = Inr ((0.035 * w + (((a * 0.65 / 1000) / d * 0.278)\<^sup>2 / (h / 100)) * 0.029 * w)
               * (d * 60))"
    "rf_get_spent_calories (SportsWalking a d w h)
        = Inr ((0.035 * w + (((a * 0.65 / 1000) / d * 0.278)\<^sup>2 / (h / 100)) * 0.029 * w)
               * (d * 60))"
    using d \<open>h \<noteq> 0\<close>
    by (simp_all add: truediv_def hw_get_distance_def rf_get_distance_def consts_defs)
  have ex: "hw_get_distance (SportsWalking 9000 1 75 180) = 5.85"
    "rf_get_distance (SportsWalking 9000 1 75 180) = 5.85"
    "hw_get_mean_speed (SportsWalking 9000 1 75 180) = Inr 5.85"
    "rf_get_mean_speed (SportsWalking 9000 1 75 180) = Inr 5.85"
    "hw_get_spent_calories (SportsWalking 9000 1 75 180) = Inr 349.251747525"
    "rf_get_spent_calories (SportsWalking 9000 1 75 180) = Inr 349.251747525"
    by (simp_all add: truediv_def hw_get_distance_def rf_get_distance_def consts_defs
        power2_eq_square)
  have fmt: "format_3f 349.251747525 = ascii ''349.252''"
    by (simp add: format_eval)
  from gen cal ex fmt show ?thesis by (intro conjI)
qed

text \<open>The hypotheses hold at the sample package.\<close>

theorem walking_calories_witness:
  "(0::real) < 1 \<and> (180::real) \<noteq> 0
   \<and> hw_get_spent_calories (SportsWalking 9000 1 75 180)
       = Inr ((0.035 * 75 + (((9000 * 0.65 / 1000) / 1 * 0.278)\<^sup>2 / (180 / 100)) * 0.029 * 75)
              * (1 * 60))"
proof -
  have h: "(0::real) < 1" "(180::real) \<noteq> 0" by simp_all
  from walking_calories [OF h, where a = 9000 and w = 75] h show ?thesis by blast
qed

subsection \<open>read\_package: wrong number of values, unknown code\<close>

lemma workout_code_unknown:
  "workout_type \<notin> {ascii ''SWM'', ascii ''RUN'', ascii ''WLK''} \<Longrightarrow> workout_code workout_type = None"
  by (simp add: workout_code_def)

lemma workout_code_known:
  "workout_code (ascii ''SWM'') = Some Swimming_class"
  "workout_code (ascii ''RUN'') = Some Running_class"
  "workout_code (ascii ''WLK'') = Some SportsWalking_class"
  by (simp_all add: workout_code_def ascii_def)

lemma construct_Running_mismatch:
  "length data \<noteq> 3 \<Longrightarrow> construct Running_class data = Inl TypeError"
  by (cases "(Running_class, data)" rule: construct.cases) simp_all

lemma construct_SportsWalking_mismatch:
  "length data \<noteq> 4 \<Longrightarrow> construct SportsWalking_class data = Inl TypeError"
  by (cases "(SportsWalking_class, data)" rule: construct.cases) simp_all

lemma construct_Swimming_mismatch:
  "length data \<noteq> 5 \<Longrightarrow> construct Swimming_class data = Inl TypeError"
  by (cases "(Swimming_class, data)" rule: construct.cases) simp_all

text \<open>
  C7. For a recognised code, when the length of the data list differs from the number
  of fields of the class (3 for RUN, 4 for WLK, 5 for SWM), the construction raises
  \<open>TypeError\<close>: \<open>read_package\<close> ends with that error in both files, nothing has
  been printed, and the batch that contains the package ends with the same error.
\<close>

theorem argument_mismatch:
  assumes "(workout_type = ascii ''RUN'' \<and> length data \<noteq> 3)
         \<or> (workout_type = ascii ''WLK'' \<and> length data \<noteq> 4)
         \<or> (workout_type = ascii ''SWM'' \<and> length data \<noteq> 5)"
  shows "hw_read_package workout_type data = ([], Inl TypeError)
    \<and> rf_read_package workout_type data = ([], Inl TypeError)
    \<and> hw_run ((workout_type, data) # packages) = ([], Inl TypeError)
    \<and> rf_main ((workout_type, data) # packages) = ([], Inl TypeError)"
proof -
  from assms obtain cls where cls: "workout_code workout_type = Some cls"
    and bad: "construct cls data = Inl TypeError"
    using workout_code_known construct_Running_mismatch construct_SportsWalking_mismatch
      construct_Swimming_mismatch by blast
  have hw: "hw_read_package workout_type data = ([], Inl TypeError)"
    by (simp add: hw_read_package_def cls bad)
  have rf: "rf_read_package workout_type data = ([], Inl TypeError)"
    by (simp add: rf_read_package_def cls bad)
  have "hw_run ((workout_type, data) # packages) = ([], Inl TypeError)"
    by (simp add: hw)
  moreover have "rf_main ((workout_type, data) # packages) = ([], Inl TypeError)"
    by (simp add: rf)
  ultimately show ?thesis using hw rf by (intro conjI)
qed

text \<open>The hypothesis holds for RUN with two values.\<close>

theorem argument_mismatch_witness:
  "((ascii ''RUN'' = ascii ''RUN'' \<and> length [15000, 1 :: real] \<noteq> 3)
    \<or> (ascii ''RUN'' = ascii ''WLK'' \<and> length [15000, 1 :: real] \<noteq> 4)
    \<or> (ascii ''RUN'' = ascii ''SWM'' \<and> length [15000, 1 :: real] \<noteq> 5))
   \<and> hw_read_package (ascii ''RUN'') [15000, 1] = ([], Inl TypeError)
   \<and> rf_read_package (ascii ''RUN'') [15000, 1] = ([], Inl TypeError)
   \<and> hw_run [(ascii ''RUN'', [15000, 1])] = ([], Inl TypeError)
   \<and> rf_main [(ascii ''RUN'', [15000, 1])] = ([], Inl TypeError)"
proof -
  have h: "(ascii ''RUN'' = ascii ''RUN'' \<and> length [15000, 1 :: real] \<noteq> 3)
    \<or> (ascii ''RUN'' = ascii ''WLK'' \<and> length [15000, 1 :: real] \<noteq> 4)
    \<or> (ascii ''RUN'' = ascii ''SWM'' \<and> length [15000, 1 :: real] \<noteq> 5)"
    by simp
  from argument_mismatch [OF h, of "[]"] h show ?thesis by blast
qed

lemma read_package_unknown:
  assumes "workout_type \<notin> {ascii ''SWM'', ascii ''RUN'', ascii ''WLK''}"
  shows "hw_read_package workout_type data = ([UNKNOWN_TYPE], Inr None)"
    and "rf_read_package workout_type data = ([UNKNOWN_TYPE], Inr ())"
  using workout_code_unknown [OF assms]
  by (simp_all add: hw_read_package_def rf_read_package_def)

lemma rf_main_unknown_continues:
  assumes "workout_type \<notin> {ascii ''SWM'', ascii ''RUN'', ascii ''WLK''}"
  shows "rf_main ((workout_type, data) # packages) =
    (UNKNOWN_TYPE # fst (rf_main packages),
     case snd (rf_main packages) of Inl e \<Rightarrow> Inl e | Inr us \<Rightarrow> Inr (() # us))"
  by (simp add: read_package_unknown(2) [OF assms] split: prod.splits sum.splits)





subsection \<open>The message\<close>

text \<open>
  The rounding of \<open>format_3f\<close> moves a value by at most half a unit of the last
  digit and keeps a non-negative value non-negative.
\<close>

lemma round_half_even_near: "\<bar>x - of_int (round_half_even x)\<bar> \<le> 1 / 2"
proof -
  have "of_int \<lfloor>x\<rfloor> \<le> x" "x < of_int \<lfloor>x\<rfloor> + 1" by linarith+
  then show ?thesis
    by (auto simp: round_half_even_def Let_def abs_le_iff)
qed

lemma round_half_even_nonneg: "0 \<le> x \<Longrightarrow> 0 \<le> round_half_even x"
  by (auto simp: round_half_even_def Let_def)








subsection \<open>The two files agree\<close>

lemma get_distance_agree: "hw_get_distance t = rf_get_distance t"
  by (cases t) (simp_all add: hw_get_distance_def rf_get_distance_def)

lemma get_mean_speed_agree: "hw_get_mean_speed t = rf_get_mean_speed t"
  by (cases t) (simp_all add: get_distance_agree)

lemma get_spent_calories_agree: "hw_get_spent_calories t = rf_get_spent_calories t"
  by (cases t)
    (simp_all add: get_mean_speed_agree get_distance_agree consts_defs split: sum.splits)

lemma show_training_info_agree: "hw_show_training_info t = rf_show_training_info t"
  by (simp add: hw_show_training_info_def rf_show_training_info_def get_distance_agree
      get_mean_speed_agree get_spent_calories_agree split: sum.splits)

lemma get_message_agree: "hw_get_message m = rf_str m"
  by (simp add: hw_get_message_def rf_str_def)

lemma show_training_info_defined:
  assumes "0 < d"
  shows "\<exists>r. hw_show_training_info (Running a d w) = Inr r"
    and "h \<noteq> 0 \<Longrightarrow> \<exists>r. hw_show_training_info (SportsWalking a d w h) = Inr r"
    and "\<exists>r. hw_show_training_info (Swimming a d w l c) = Inr r"
  using assms by (simp_all add: hw_show_training_info_def truediv_def consts_defs)

lemma length_3: "length xs = 3 \<Longrightarrow> \<exists>a b c. xs = [a, b, c]"
  by (cases xs; cases "tl xs"; cases "tl (tl xs)") auto

lemma length_4: "length xs = 4 \<Longrightarrow> \<exists>a b c d. xs = [a, b, c, d]"
  by (cases xs; cases "tl xs"; cases "tl (tl xs)"; cases "tl (tl (tl xs))") auto

lemma length_5: "length xs = 5 \<Longrightarrow> \<exists>a b c d e. xs = [a, b, c, d, e]"
  by (cases xs; cases "tl xs"; cases "tl (tl xs)"; cases "tl (tl (tl xs))";
      cases "tl (tl (tl (tl xs)))") auto

lemma known_package_constructs:
  assumes "(workout_type = ascii ''RUN'' \<and> length data = 3)
         \<or> (workout_type = ascii ''WLK'' \<and> length data = 4 \<and> data ! 3 \<noteq> 0)
         \<or> (workout_type = ascii ''SWM'' \<and> length data = 5)"
    and "0 < data ! 1"
  shows "\<exists>cls t r. workout_code workout_type = Some cls \<and> construct cls data = Inr t
           \<and> hw_show_training_info t = Inr r"
proof -
  consider (run) "workout_type = ascii ''RUN''" "length data = 3"
    | (wlk) "workout_type = ascii ''WLK''" "length data = 4" "data ! 3 \<noteq> 0"
    | (swm) "workout_type = ascii ''SWM''" "length data = 5"
    using assms(1) by blast
  then show ?thesis
  proof cases
    case run
    then obtain a d w where data: "data = [a, d, w]" using length_3 by blast
    with assms(2) have "0 < d" by simp
    from show_training_info_defined(1) [OF this] obtain r
      where "hw_show_training_info (Running a d w) = Inr r" by blast
    then show ?thesis using run(1) data workout_code_known(2) by simp
  next
    case wlk
    then obtain a d w h where data: "data = [a, d, w, h]" using length_4 by blast
    with assms(2) wlk(3) have "0 < d" "h \<noteq> 0" by simp_all
    from show_training_info_defined(2) [OF this] obtain r
      where "hw_show_training_info (SportsWalking a d w h) = Inr r" by blast
    then show ?thesis using wlk(1) data workout_code_known(3) by simp
  next
    case swm
    then obtain a d w l c where data: "data = [a, d, w, l, c]" using length_5 by blast
    with assms(2) have "0 < d" by simp
    from show_training_info_defined(3) [OF this] obtain r
      where "hw_show_training_info (Swimming a d w l c) = Inr r" by blast
    then show ?thesis using swm(1) data workout_code_known(1) by simp
  qed
qed

text \<open>
  C9. For a recognised code and a data list of the matching length with
  duration > 0 (and height \<noteq> 0 for WLK), both files build the same object, compute
  equal distance, mean speed and calories, produce the same record and print the same
  line: \<open>read_package\<close> followed by \<open>main\<close> in homework.py, \<open>read_package\<close>
  alone in oop\_refactor.py.
\<close>

theorem files_agree:
  assumes "(workout_type = ascii ''RUN'' \<and> length data = 3)
         \<or> (workout_type = ascii ''WLK'' \<and> length data = 4 \<and> data ! 3 \<noteq> 0)
         \<or> (workout_type = ascii ''SWM'' \<and> length data = 5)"
    and "0 < data ! 1"
  shows "\<exists>t r. hw_read_package workout_type data = ([], Inr (Some t))
           \<and> hw_get_distance t = rf_get_distance t
           \<and> hw_get_mean_speed t = rf_get_mean_speed t
           \<and> hw_get_mean_speed t = Inr (speed r)
           \<and> hw_get_spent_calories t = rf_get_spent_calories t
           \<and> hw_get_spent_calories t = Inr (calories r)
           \<and> hw_show_training_info t = Inr r
           \<and> rf_show_training_info t = Inr r
           \<and> hw_get_message r = rf_str r
           \<and> hw_main (Some t) = ([rf_str r], Inr ())
           \<and> rf_read_package workout_type data = ([rf_str r], Inr ())"
proof -
  from known_package_constructs [OF assms] obtain cls t r
    where cls: "workout_code workout_type = Some cls"
      and t: "construct cls data = Inr t"
      and r: "hw_show_training_info t = Inr r"
    by blast
  from r have r': "rf_show_training_info t = Inr r"
    by (simp add: show_training_info_agree)
  from r have sp: "hw_get_mean_speed t = Inr (speed r)"
    and ca: "hw_get_spent_calories t = Inr (calories r)"
    by (auto simp: hw_show_training_info_def split: sum.splits)
  have "hw_read_package workout_type data = ([], Inr (Some t))"
    by (simp add: hw_read_package_def cls t)
  moreover have "hw_main (Some t) = ([rf_str r], Inr ())"
    by (simp add: hw_main_def r get_message_agree)
  moreover have "rf_read_package workout_type data = ([rf_str r], Inr ())"
    by (simp add: rf_read_package_def cls t r')
  ultimately show ?thesis
    using r r' sp ca get_distance_agree get_mean_speed_agree get_spent_calories_agree
      get_message_agree
    by blast
qed

text \<open>The hypotheses hold at the walking sample.\<close>

theorem files_agree_witness:
  "((ascii ''WLK'' = ascii ''RUN'' \<and> length [9000, 1, 75, 180 :: real] = 3)
     \<or> (ascii ''WLK'' = ascii ''WLK'' \<and> length [9000, 1, 75, 180 :: real] = 4
          \<and> [9000, 1, 75, 180 :: real] ! 3 \<noteq> 0)
     \<or> (ascii ''WLK'' = ascii ''SWM'' \<and> length [9000, 1, 75, 180 :: real] = 5))
   \<and> 0 < [9000, 1, 75, 180 :: real] ! 1
   \<and> (\<exists>t r. hw_read_package (ascii ''WLK'') [9000, 1, 75, 180] = ([], Inr (Some t))
           \<and> hw_main (Some t) = ([rf_str r], Inr ())
           \<and> rf_read_package (ascii ''WLK'') [9000, 1, 75, 180] = ([rf_str r], Inr ()))"
proof -
  have h1: "(ascii ''WLK'' = ascii ''RUN'' \<and> length [9000, 1, 75, 180 :: real] = 3)
     \<or> (ascii ''WLK'' = ascii ''WLK'' \<and> length [9000, 1, 75, 180 :: real] = 4
          \<and> [9000, 1, 75, 180 :: real] ! 3 \<noteq> 0)
     \<or> (ascii ''WLK'' = ascii ''SWM'' \<and> length [9000, 1, 75, 180 :: real] = 5)"
    by simp
  have h2: "0 < [9000, 1, 75, 180 :: real] ! 1" by simp
  from files_agree [OF h1 h2] h1 h2 show ?thesis by blast
qed

text \<open>
  C10. For Running and SportsWalking with duration > 0 (and height \<noteq> 0, without
  which no record is produced), \<open>show_training_info\<close> returns a record whose speed
  is its distance divided by its duration. For Swimming the relation can fail: the
  record of (720, 1, 80, 25, 40) has distance 0.9936 and speed 1.
\<close>

theorem record_speed_relation:
  assumes "0 < d" and "h \<noteq> 0"
  shows "(\<exists>r. hw_show_training_info (Running a d w) = Inr r
            \<and> speed r = distance r / duration r)
    \<and> (\<exists>r. rf_show_training_info (Running a d w) = Inr r
            \<and> speed r = distance r / duration r)
    \<and> (\<exists>r. hw_show_training_info (SportsWalking a d w h) = Inr r
            \<and> speed r = distance r / duration r)
    \<and> (\<exists>r. rf_show_training_info (SportsWalking a d w h) = Inr r
            \<and> speed r = distance r / duration r)
    \<and> hw_show_training_info (Swimming 720 1 80 25 40)
        = Inr \<lparr>training_type = ascii ''Swimming'', duration = 1, distance = 0.9936,
               speed = 1, calories = 336\<rparr>
    \<and> rf_show_training_info (Swimming 720 1 80 25 40)
        = Inr \<lparr>training_type = ascii ''Swimming'', duration = 1, distance = 0.9936,
               speed = 1, calories = 336\<rparr>
    \<and> (1 :: real) \<noteq> 0.9936 / 1"
proof -
  from assms have d: "d \<noteq> 0" by simp
  have run: "\<exists>r. hw_show_training_info (Running a d w) = Inr r
            \<and> speed r = distance r / duration r"
    using d by (simp add: hw_show_training_info_def truediv_def)
  have walk: "\<exists>r. hw_show_training_info (SportsWalking a d w h) = Inr r
            \<and> speed r = distance r / duration r"
    using d \<open>h \<noteq> 0\<close> by (simp add: hw_show_training_info_def truediv_def CM_IN_M_def)
  have swim: "hw_show_training_info (Swimming 720 1 80 25 40)
        = Inr \<lparr>training_type = ascii ''Swimming'', duration = 1, distance = 0.9936,
               speed = 1, calories = 336\<rparr>"
    by (simp add: hw_show_training_info_def truediv_def hw_get_distance_def consts_defs)
  have ne: "(1 :: real) \<noteq> 0.9936 / 1" by simp
  from run walk swim ne show ?thesis
    unfolding show_training_info_agree [symmetric] by (intro conjI)
qed

text \<open>The hypotheses hold at the running and walking samples.\<close>

theorem record_speed_relation_witness:
  "(0 :: real) < 1 \<and> (180 :: real) \<noteq> 0
   \<and> (\<exists>r. hw_show_training_info (Running 15000 1 75) = Inr r
            \<and> speed r = distance r / duration r)
   \<and> (\<exists>r. hw_show_training_info (SportsWalking 9000 1 75 180) = Inr r
            \<and> speed r = distance r / duration r)"
proof -
  have h: "(0 :: real) < 1" "(180 :: real) \<noteq> 0" by simp_all
  from record_speed_relation [OF h, where a = 15000 and w = 75]
    record_speed_relation [OF h, where a = 9000 and w = 75] h
  show ?thesis by blast
qed

end
